theory Spec2Isabelle
  imports Complex_Main
begin

section \<open>Python values\<close>

text \<open>
  The backend is Python. Integers are unbounded (\<open>int\<close>). A Python float is a real
  number (the value of a double) or one of the three non-finite values. The statistics
  and the conversions of a configuration update are computed in double precision:
  every operation there returns \<open>round_double\<close> of its exact result. The arithmetic of
  the metric extractor (\<open>utils.py\<close>) is taken exact: its square roots, quotients and
  products are not rounded and do not overflow, so the theory decides which branch and
  which exception the extractor takes, not the last bits of the ratio. Exceptions are
  values of \<open>py_exn\<close>, returned on the left of a sum.
\<close>

datatype pyfloat = Finite real | PosInf | NegInf | NaN

datatype py_exn = IndexError | ZeroDivisionError | ValueError | OverflowError | TypeError

text \<open>The values a JSON body decodes to, and the values the endpoints return.\<close>

datatype pyval =
    PNone
  | PBool bool
  | PInt int
  | PFloat pyfloat
  | PStr string
  | PList "pyval list"
  | PDict "(string \<times> pyval) list"

text \<open>\<open>int(x)\<close> on a float truncates towards zero and raises on a non-finite value.\<close>

definition trunc :: "real \<Rightarrow> int" where
  "trunc r = (if 0 \<le> r then \<lfloor>r\<rfloor> else \<lceil>r\<rceil>)"

fun int_of_float :: "pyfloat \<Rightarrow> py_exn + int" where
  "int_of_float (Finite r) = Inr (trunc r)"
| "int_of_float NaN = Inl ValueError"
| "int_of_float PosInf = Inl OverflowError"
| "int_of_float NegInf = Inl OverflowError"

text \<open>\<open>f * n\<close> for a float \<open>f\<close> and an integer \<open>n\<close>.\<close>

fun float_mul_int :: "pyfloat \<Rightarrow> int \<Rightarrow> pyfloat" where
  "float_mul_int (Finite r) n = Finite (r * of_int n)"
| "float_mul_int NaN n = NaN"
| "float_mul_int PosInf n = (if 0 < n then PosInf else if n < 0 then NegInf else NaN)"
| "float_mul_int NegInf n = (if 0 < n then NegInf else if n < 0 then PosInf else NaN)"

text \<open>\<open>a < b\<close> on floats: every comparison with NaN is false.\<close>

fun float_lt :: "pyfloat \<Rightarrow> pyfloat \<Rightarrow> bool" where
  "float_lt (Finite a) (Finite b) = (a < b)"
| "float_lt (Finite a) PosInf = True"
| "float_lt (Finite a) NegInf = False"
| "float_lt (Finite a) NaN = False"
| "float_lt PosInf b = False"
| "float_lt NegInf (Finite b) = True"
| "float_lt NegInf PosInf = True"
| "float_lt NegInf NegInf = False"
| "float_lt NegInf NaN = False"
| "float_lt NaN b = False"

text \<open>The nearest integer, a tie going to the even neighbour.\<close>

definition round_half_even :: "real \<Rightarrow> int" where
  "round_half_even x =
     (let f = \<lfloor>x\<rfloor>; d = x - of_int f
      in if d < 1 / 2 then f
         else if 1 / 2 < d then f + 1
         else if even f then f else f + 1)"

text \<open>
  The double nearest to a real number (IEEE 754 binary64, round to nearest, ties to
  even): 53 significant bits in the binade of \<open>x\<close>, the exponent not below -1022 (the
  subnormal numbers share the spacing \<open>2\<^sup>-\<^sup>1\<^sup>0\<^sup>7\<^sup>4\<close>), and an infinity when the rounded
  value reaches \<open>2\<^sup>1\<^sup>0\<^sup>2\<^sup>4\<close>. The sign of a zero is not kept.
\<close>

definition round_double :: "real \<Rightarrow> pyfloat" where
  "round_double x =
     (if x = 0 then Finite 0
      else
        (let e = max \<lfloor>log 2 \<bar>x\<bar>\<rfloor> (- 1022);
             ulp = 2 powi (e - 52);
             y = of_int (round_half_even (x / ulp)) * ulp
         in if 2 ^ 1024 \<le> y then PosInf
            else if y \<le> - (2 ^ 1024) then NegInf
            else Finite y))"

text \<open>
  \<open>float(i)\<close> on an integer, also the conversion of an integer operand: correctly
  rounded, \<open>OverflowError\<close> beyond the range of the doubles.
\<close>

definition float_of_int :: "int \<Rightarrow> py_exn + pyfloat" where
  "float_of_int i =
     (case round_double (of_int i) of
        Finite y \<Rightarrow> Inr (Finite y)
      | PosInf \<Rightarrow> Inl OverflowError
      | NegInf \<Rightarrow> Inl OverflowError
      | NaN \<Rightarrow> Inl OverflowError)"

text \<open>
  \<open>a / b\<close> on two integers: the correctly rounded quotient, \<open>ZeroDivisionError\<close> for a
  zero divisor and \<open>OverflowError\<close> for a quotient beyond the range of the doubles.
\<close>

definition int_true_div :: "int \<Rightarrow> int \<Rightarrow> py_exn + pyfloat" where
  "int_true_div a b =
     (if b = 0 then Inl ZeroDivisionError
      else
        (case round_double (of_int a / of_int b) of
           Finite y \<Rightarrow> Inr (Finite y)
         | PosInf \<Rightarrow> Inl OverflowError
         | NegInf \<Rightarrow> Inl OverflowError
         | NaN \<Rightarrow> Inl OverflowError))"

text \<open>\<open>a * b\<close> on two floats; it does not raise.\<close>

fun float_mul :: "pyfloat \<Rightarrow> pyfloat \<Rightarrow> pyfloat" where
  "float_mul (Finite a) (Finite b) = round_double (a * b)"
| "float_mul NaN y = NaN"
| "float_mul x NaN = NaN"
| "float_mul (Finite a) PosInf = (if 0 < a then PosInf else if a < 0 then NegInf else NaN)"
| "float_mul (Finite a) NegInf = (if 0 < a then NegInf else if a < 0 then PosInf else NaN)"
| "float_mul PosInf (Finite b) = (if 0 < b then PosInf else if b < 0 then NegInf else NaN)"
| "float_mul NegInf (Finite b) = (if 0 < b then NegInf else if b < 0 then PosInf else NaN)"
| "float_mul PosInf PosInf = PosInf"
| "float_mul PosInf NegInf = NegInf"
| "float_mul NegInf PosInf = NegInf"
| "float_mul NegInf NegInf = PosInf"

text \<open>
  \<open>round(x, n)\<close> on a float, for the small \<open>n\<close> of this program: the exact value of the
  double is rounded to \<open>n\<close> decimals, a tie going to the even neighbour, and the double
  nearest to that decimal is returned. A non-finite float is returned as it is.
\<close>

definition round_decimal :: "real \<Rightarrow> nat \<Rightarrow> real" where
  "round_decimal x n = of_int (round_half_even (x * 10 ^ n)) / 10 ^ n"

fun py_round :: "pyfloat \<Rightarrow> nat \<Rightarrow> pyfloat" where
  "py_round (Finite x) n = round_double (round_decimal x n)"
| "py_round PosInf n = PosInf"
| "py_round NegInf n = NegInf"
| "py_round NaN n = NaN"

text \<open>\<open>round(v, n)\<close> on a value: an integer is returned as it is for \<open>n \<ge> 0\<close>.\<close>

fun round_val :: "pyval \<Rightarrow> nat \<Rightarrow> pyval" where
  "round_val (PFloat f) n = PFloat (py_round f n)"
| "round_val v n = v"

text \<open>
  The builtins \<open>float(s)\<close> and \<open>int(s)\<close> on a string belong to the language, not to the
  repository: they are parameters of the model. \<open>None\<close> is the \<open>ValueError\<close> of a string
  that does not parse.
\<close>

record builtins =
  str_to_float :: "string \<Rightarrow> pyfloat option"
  str_to_int :: "string \<Rightarrow> int option"

fun py_float :: "builtins \<Rightarrow> pyval \<Rightarrow> py_exn + pyfloat" where
  "py_float B PNone = Inl TypeError"
| "py_float B (PBool b) = Inr (Finite (if b then 1 else 0))"
| "py_float B (PInt i) = float_of_int i"
| "py_float B (PFloat f) = Inr f"
| "py_float B (PStr s) = (case str_to_float B s of None \<Rightarrow> Inl ValueError | Some f \<Rightarrow> Inr f)"
| "py_float B (PList vs) = Inl TypeError"
| "py_float B (PDict kvs) = Inl TypeError"

fun py_int :: "builtins \<Rightarrow> pyval \<Rightarrow> py_exn + int" where
  "py_int B PNone = Inl TypeError"
| "py_int B (PBool b) = Inr (if b then 1 else 0)"
| "py_int B (PInt i) = Inr i"
| "py_int B (PFloat f) = int_of_float f"
| "py_int B (PStr s) = (case str_to_int B s of None \<Rightarrow> Inl ValueError | Some i \<Rightarrow> Inr i)"
| "py_int B (PList vs) = Inl TypeError"
| "py_int B (PDict kvs) = Inl TypeError"

text \<open>The number a returned value stands for (\<open>0 == 0.0\<close> in Python).\<close>

fun number_of :: "pyval \<Rightarrow> real option" where
  "number_of (PInt i) = Some (of_int i)"
| "number_of (PFloat (Finite r)) = Some r"
| "number_of v = None"

section \<open>utils.py: the eye aspect ratio\<close>

definition LEFT_EYE :: "nat list" where
  "LEFT_EYE = [33, 160, 158, 133, 153, 144]"

definition RIGHT_EYE :: "nat list" where
  "RIGHT_EYE = [263, 387, 385, 362, 380, 373]"

definition euclidean_distance :: "int \<times> int \<Rightarrow> int \<times> int \<Rightarrow> real" where
  "euclidean_distance p1 p2 =
     sqrt (of_int ((fst p1 - fst p2) ^ 2 + (snd p1 - snd p2) ^ 2))"

text \<open>
  A landmark is its normalised \<open>(x, y)\<close>; \<open>landmarks.landmark\<close> is a sequence, and an
  index past its end raises \<open>IndexError\<close>. The loop of \<open>calculate_EAR\<close> converts the
  twelve eye landmarks into pixel points, in the order of \<open>LEFT_EYE + RIGHT_EYE\<close>.
\<close>

type_synonym landmark = "pyfloat \<times> pyfloat"

fun collect_points ::
  "landmark list \<Rightarrow> int \<Rightarrow> int \<Rightarrow> nat list \<Rightarrow> (int \<times> int) list \<Rightarrow> py_exn + (int \<times> int) list"
where
  "collect_points lms h w [] points = Inr points"
| "collect_points lms h w (idx # rest) points =
     (if idx < length lms then
        (let lm = lms ! idx in
         case int_of_float (float_mul_int (fst lm) w) of
           Inl e \<Rightarrow> Inl e
         | Inr x \<Rightarrow>
             (case int_of_float (float_mul_int (snd lm) h) of
                Inl e \<Rightarrow> Inl e
              | Inr y \<Rightarrow> collect_points lms h w rest (points @ [(x, y)])))
      else Inl IndexError)"

text \<open>
  The inner function \<open>calculate_eye_ear\<close>. Float division by zero raises
  \<open>ZeroDivisionError\<close> in Python.
\<close>

definition calculate_eye_ear :: "(int \<times> int) list \<Rightarrow> py_exn + real" where
  "calculate_eye_ear eye =
     (if length eye < 6 then Inl IndexError
      else
        (let vertical1 = euclidean_distance (eye ! 1) (eye ! 5);
             vertical2 = euclidean_distance (eye ! 2) (eye ! 4);
             horizontal = euclidean_distance (eye ! 0) (eye ! 3)
         in if 2 * horizontal = 0 then Inl ZeroDivisionError
            else Inr ((vertical1 + vertical2) / (2 * horizontal))))"

text \<open>The body of the \<open>try\<close> block, for landmarks that are not \<open>None\<close>.\<close>

definition calculate_EAR_try :: "landmark list \<Rightarrow> int \<times> int \<times> int \<Rightarrow> py_exn + real" where
  "calculate_EAR_try lms frame_shape =
     (case frame_shape of (h, w, c) \<Rightarrow>
        (case collect_points lms h w (LEFT_EYE @ RIGHT_EYE) [] of
           Inl e \<Rightarrow> Inl e
         | Inr points \<Rightarrow>
             (let left_eye = take 6 points; right_eye = drop 6 points in
              case calculate_eye_ear left_eye of
                Inl e \<Rightarrow> Inl e
              | Inr left_ear \<Rightarrow>
                  (case calculate_eye_ear right_eye of
                     Inl e \<Rightarrow> Inl e
                   | Inr right_ear \<Rightarrow> Inr ((left_ear + right_ear) / 2)))))"

text \<open>\<open>calculate_EAR\<close>: every exception of the body is caught and becomes \<open>None\<close>.\<close>

definition calculate_EAR :: "landmark list option \<Rightarrow> int \<times> int \<times> int \<Rightarrow> real option" where
  "calculate_EAR landmarks frame_shape =
     (case landmarks of
        None \<Rightarrow> None
      | Some lms \<Rightarrow>
          (case calculate_EAR_try lms frame_shape of
             Inl e \<Rightarrow> None
           | Inr ear \<Rightarrow> Some ear))"

section \<open>config.py: the settings\<close>

record Settings =
  EAR_THRESHOLD :: pyfloat
  CONSECUTIVE_FRAMES :: int
  WINDOW_SIZE :: int
  API_HOST :: string
  API_PORT :: int
  DEBUG :: bool
  CORS_ORIGINS :: "string list"

definition settings :: Settings where
  "settings =
     \<lparr>EAR_THRESHOLD = Finite (25 / 100), CONSECUTIVE_FRAMES = 20, WINDOW_SIZE = 10,
      API_HOST = ''0.0.0.0'', API_PORT = 8000, DEBUG = True, CORS_ORIGINS = [''*'']\<rparr>"

section \<open>app.py: the detection state and the endpoints\<close>

record DetectionState =
  closed_eye_counter :: int
  alert_triggered :: bool
  frame_count :: int
  drowsy_frames :: int

text \<open>\<open>DetectionState.__init__\<close>, and the module-level \<open>state\<close> it creates.\<close>

definition state :: DetectionState where
  "state =
     \<lparr>closed_eye_counter = 0, alert_triggered = False, frame_count = 0, drowsy_frames = 0\<rparr>"

text \<open>
  What the collaborators of \<open>process_frame\<close> deliver for one uploaded file: the image does
  not decode (\<open>frame is None or frame.size == 0\<close>), the face mesh finds no face, or it
  finds one and hands its landmarks, with the shape of the frame, to \<open>calculate_EAR\<close>.
  Decoding, detection, drawing and encoding themselves are the libraries' work and are
  not modelled; the \<open>frame_base64\<close> entry of the response and the printed log lines are
  left out.
\<close>

datatype frame =
    Invalid_image
  | No_face
  | Face "landmark list option" "int \<times> int \<times> int"

text \<open>
  An endpoint answers with a dictionary, or fails: with the \<open>HTTPException\<close> that
  \<open>process_frame\<close> raises from its \<open>except\<close> clause, or with an exception nothing catches.
\<close>

datatype failure = HTTPException nat | Uncaught py_exn

type_synonym reply = "failure + (string \<times> pyval) list"

text \<open>Step 5 of \<open>process_frame\<close>: the drowsiness check on a computed ratio.\<close>

definition check_drowsiness :: "Settings \<Rightarrow> DetectionState \<Rightarrow> real \<Rightarrow> DetectionState" where
  "check_drowsiness cfg st ear =
     (if float_lt (Finite ear) (EAR_THRESHOLD cfg) then
        (let st1 = st\<lparr>closed_eye_counter := closed_eye_counter st + 1\<rparr> in
         if CONSECUTIVE_FRAMES cfg \<le> closed_eye_counter st1 then
           (let st2 = st1\<lparr>drowsy_frames := drowsy_frames st1 + 1\<rparr> in
            if \<not> alert_triggered st2 then st2\<lparr>alert_triggered := True\<rparr> else st2)
         else st1)
      else st\<lparr>closed_eye_counter := 0, alert_triggered := False\<rparr>)"

text \<open>
  \<open>process_frame\<close>. The counter of frames is incremented first, inside the \<open>try\<close>; the
  \<open>HTTPException(400)\<close> of an invalid image is itself caught by \<open>except Exception\<close> and
  raised again with status 500.
\<close>

definition process_frame :: "Settings \<Rightarrow> DetectionState \<Rightarrow> frame \<Rightarrow> DetectionState \<times> reply" where
  "process_frame cfg st0 file =
     (let st = st0\<lparr>frame_count := frame_count st0 + 1\<rparr> in
      case file of
        Invalid_image \<Rightarrow> (st, Inl (HTTPException 500))
      | No_face \<Rightarrow>
          (st, Inr [(''ear'', PNone),
                    (''status'', PStr ''NO_FACE''),
                    (''message'', PStr ''No face detected in frame''),
                    (''alert_triggered'', PBool False),
                    (''frame_count'', PInt (frame_count st))])
      | Face landmarks frame_shape \<Rightarrow>
          (case calculate_EAR landmarks frame_shape of
             None \<Rightarrow>
               (st, Inr [(''ear'', PNone),
                         (''status'', PStr ''ERROR''),
                         (''message'', PStr ''Could not calculate EAR''),
                         (''alert_triggered'', PBool False),
                         (''frame_count'', PInt (frame_count st))])
           | Some ear \<Rightarrow>
               (let st' = check_drowsiness cfg st ear in
                (st', Inr [(''ear'', PFloat (py_round (Finite ear) 4)),
                           (''status'', PStr (if alert_triggered st' then ''DROWSY'' else ''AWAKE'')),
                           (''alert_triggered'', PBool (alert_triggered st')),
                           (''closed_eyes_frames'', PInt (closed_eye_counter st')),
                           (''frame_count'', PInt (frame_count st')),
                           (''drowsy_frames'', PInt (drowsy_frames st'))]))))"

definition get_config :: "Settings \<Rightarrow> (string \<times> pyval) list" where
  "get_config cfg =
     [(''ear_threshold'', PFloat (EAR_THRESHOLD cfg)),
      (''consecutive_frames'', PInt (CONSECUTIVE_FRAMES cfg)),
      (''window_size'', PInt (WINDOW_SIZE cfg))]"

text \<open>
  \<open>update_config\<close>: three assignments in a row, each guarded by the presence of its key.
  An exception of a conversion leaves the function at once, with the assignments made
  before it still in place.
\<close>

definition update_config ::
  "builtins \<Rightarrow> Settings \<Rightarrow> (string \<rightharpoonup> pyval) \<Rightarrow> Settings \<times> reply"
where
  "update_config B cfg0 config =
     (case (case config ''ear_threshold'' of
              None \<Rightarrow> Inr cfg0
            | Some v \<Rightarrow>
                (case py_float B v of
                   Inl e \<Rightarrow> Inl (cfg0, e)
                 | Inr f \<Rightarrow> Inr (cfg0\<lparr>EAR_THRESHOLD := f\<rparr>))) of
        Inl (cfg, e) \<Rightarrow> (cfg, Inl (Uncaught e))
      | Inr cfg1 \<Rightarrow>
          (case (case config ''consecutive_frames'' of
                   None \<Rightarrow> Inr cfg1
                 | Some v \<Rightarrow>
                     (case py_int B v of
                        Inl e \<Rightarrow> Inl (cfg1, e)
                      | Inr n \<Rightarrow> Inr (cfg1\<lparr>CONSECUTIVE_FRAMES := n\<rparr>))) of
             Inl (cfg, e) \<Rightarrow> (cfg, Inl (Uncaught e))
           | Inr cfg2 \<Rightarrow>
               (case (case config ''window_size'' of
                        None \<Rightarrow> Inr cfg2
                      | Some v \<Rightarrow>
                          (case py_int B v of
                             Inl e \<Rightarrow> Inl (cfg2, e)
                           | Inr n \<Rightarrow> Inr (cfg2\<lparr>WINDOW_SIZE := n\<rparr>))) of
                  Inl (cfg, e) \<Rightarrow> (cfg, Inl (Uncaught e))
                | Inr cfg3 \<Rightarrow>
                    (cfg3, Inr [(''status'', PStr ''updated''),
                                (''new_config'', PDict (get_config cfg3))]))))"

text \<open>
  \<open>get_stats\<close>. The percentage is the double \<open>(drowsy_frames / max(frame_count, 1)) * 100\<close>,
  the integer 100 being converted to the double 100.0, or the integer 0 when no frame
  was counted; \<open>round\<close> is applied to either.
\<close>

definition get_stats :: "DetectionState \<Rightarrow> reply" where
  "get_stats st =
     (case (if 0 < frame_count st then
              (case int_true_div (drowsy_frames st) (max (frame_count st) 1) of
                 Inl e \<Rightarrow> Inl e
               | Inr q \<Rightarrow> Inr (PFloat (float_mul q (Finite 100))))
            else Inr (PInt 0)) of
        Inl e \<Rightarrow> Inl (Uncaught e)
      | Inr drowsy_percentage \<Rightarrow>
          Inr [(''frames_processed'', PInt (frame_count st)),
               (''drowsy_frames'', PInt (drowsy_frames st)),
               (''drowsy_percentage'', round_val drowsy_percentage 2)])"

definition reset_stats :: "DetectionState \<Rightarrow> DetectionState \<times> (string \<times> pyval) list" where
  "reset_stats st =
     (st\<lparr>frame_count := 0, drowsy_frames := 0, closed_eye_counter := 0,
         alert_triggered := False\<rparr>,
      [(''status'', PStr ''reset'')])"

definition health_check :: "(string \<times> pyval) list" where
  "health_check =
     [(''status'', PStr ''healthy''), (''service'', PStr ''DrowsyDriver API''),
      (''version'', PStr ''1.0.0'')]"

subsection \<open>The server: one request after the other\<close>

text \<open>
  The two module-level objects \<open>settings\<close> and \<open>state\<close> are the whole state of the
  server. Requests are handled one at a time.
\<close>

datatype request =
    Health
  | ProcessFrame frame
  | GetConfig
  | UpdateConfig "string \<rightharpoonup> pyval"
  | GetStats
  | Reset

fun handle :: "builtins \<Rightarrow> Settings \<times> DetectionState \<Rightarrow> request \<Rightarrow> (Settings \<times> DetectionState) \<times> reply"
where
  "handle B (cfg, st) Health = ((cfg, st), Inr health_check)"
| "handle B (cfg, st) (ProcessFrame file) =
     (case process_frame cfg st file of (st', r) \<Rightarrow> ((cfg, st'), r))"
| "handle B (cfg, st) GetConfig = ((cfg, st), Inr (get_config cfg))"
| "handle B (cfg, st) (UpdateConfig config) =
     (case update_config B cfg config of (cfg', r) \<Rightarrow> ((cfg', st), r))"
| "handle B (cfg, st) GetStats = ((cfg, st), get_stats st)"
| "handle B (cfg, st) Reset =
     (case reset_stats st of (st', r) \<Rightarrow> ((cfg, st'), Inr r))"

text \<open>The state of the server after a list of requests.\<close>

fun run :: "builtins \<Rightarrow> Settings \<times> DetectionState \<Rightarrow> request list \<Rightarrow> Settings \<times> DetectionState"
where
  "run B sv [] = sv"
| "run B sv (r # rs) = run B (fst (handle B sv r)) rs"

text \<open>
  A stream of uploaded frames under one configuration: the state each call of
  \<open>process_frame\<close> leaves, with its reply.
\<close>

fun process_frames :: "Settings \<Rightarrow> DetectionState \<Rightarrow> frame list \<Rightarrow> (DetectionState \<times> reply) list"
where
  "process_frames cfg st [] = []"
| "process_frames cfg st (file # files) =
     process_frame cfg st file # process_frames cfg (fst (process_frame cfg st file)) files"

text \<open>An entry of a reply; a failure has none.\<close>

fun entry :: "reply \<Rightarrow> string \<Rightarrow> pyval option" where
  "entry (Inl e) k = None"
| "entry (Inr d) k = map_of d k"

text \<open>
  The metric a frame makes available to the state machine: the ratio \<open>calculate_EAR\<close>
  returns for a detected face, and none otherwise.
\<close>

fun metric_of :: "frame \<Rightarrow> real option" where
  "metric_of (Face landmarks frame_shape) = calculate_EAR landmarks frame_shape"
| "metric_of No_face = None"
| "metric_of Invalid_image = None"

text \<open>The relation between the two cumulative counters.\<close>

definition counters_ok :: "DetectionState \<Rightarrow> bool" where
  "counters_ok st \<longleftrightarrow> 0 \<le> drowsy_frames st \<and> drowsy_frames st \<le> frame_count st"

text \<open>
  A stand-in for the string parsers, for requests that carry no string.
\<close>

definition no_strings :: builtins where
  "no_strings = \<lparr>str_to_float = (\<lambda>s. None), str_to_int = (\<lambda>s. None)\<rparr>"

section \<open>The documented metric\<close>

text \<open>
  The specification's formula, written from its words: points in pixel space, Euclidean
  distances, the ratio \<open>(|p2 - p6| + |p3 - p5|) / (2 |p1 - p4|)\<close> of one eye, and the mean
  of the two eyes. The twelve points are the left eye's six followed by the right eye's.
\<close>

fun spec_pixel :: "int \<Rightarrow> int \<Rightarrow> landmark \<Rightarrow> (int \<times> int) option" where
  "spec_pixel h w (Finite x, Finite y) = Some (trunc (x * of_int w), trunc (y * of_int h))"
| "spec_pixel h w lm = None"

definition spec_distance :: "int \<times> int \<Rightarrow> int \<times> int \<Rightarrow> real" where
  "spec_distance p q =
     sqrt ((of_int (fst p) - of_int (fst q)) ^ 2 + (of_int (snd p) - of_int (snd q)) ^ 2)"

definition spec_ratio :: "(int \<times> int) list \<Rightarrow> real" where
  "spec_ratio eye =
     (spec_distance (eye ! 1) (eye ! 5) + spec_distance (eye ! 2) (eye ! 4))
       / (2 * spec_distance (eye ! 0) (eye ! 3))"

definition spec_metric :: "(int \<times> int) list \<Rightarrow> real" where
  "spec_metric pts = (spec_ratio (take 6 pts) + spec_ratio (drop 6 pts)) / 2"

section \<open>Fixtures\<close>

text \<open>
  A face mesh of 478 landmarks for a frame of 100 by 100 pixels, all at the origin but
  the twelve eye landmarks, which are placed at the given pixel points.
\<close>

definition mesh :: "(int \<times> int) list \<Rightarrow> landmark list" where
  "mesh pts =
     fold (\<lambda>(idx, p) lms. lms[idx := (Finite (of_int (fst p) / 100), Finite (of_int (snd p) / 100))])
       (zip (LEFT_EYE @ RIGHT_EYE) pts) (replicate 478 (Finite 0, Finite 0))"

definition open_points :: "(int \<times> int) list" where
  "open_points =
     [(10, 50), (13, 48), (17, 48), (20, 50), (17, 51), (13, 51),
      (60, 50), (63, 48), (67, 48), (70, 50), (67, 51), (63, 51)]"

definition closed_points :: "(int \<times> int) list" where
  "closed_points =
     [(10, 50), (13, 49), (17, 49), (20, 50), (17, 51), (13, 51),
      (60, 50), (63, 49), (67, 49), (70, 50), (67, 51), (63, 51)]"

definition degenerate_points :: "(int \<times> int) list" where
  "degenerate_points =
     [(10, 50), (13, 48), (17, 48), (20, 50), (17, 51), (13, 51),
      (60, 50), (63, 48), (67, 48), (60, 50), (67, 51), (63, 51)]"

definition open_eyes :: frame where
  "open_eyes = Face (Some (mesh open_points)) (100, 100, 3)"

definition closed_eyes :: frame where
  "closed_eyes = Face (Some (mesh closed_points)) (100, 100, 3)"

definition degenerate_eyes :: frame where
  "degenerate_eyes = Face (Some (mesh degenerate_points)) (100, 100, 3)"

section \<open>The metric extractor\<close>

lemma euclidean_distance_spec: "euclidean_distance p q = spec_distance p q"
  by (simp add: euclidean_distance_def spec_distance_def)

lemma euclidean_distance_nonneg: "0 \<le> euclidean_distance p q"
  by (simp add: euclidean_distance_def)

lemma euclidean_distance_zero_iff: "euclidean_distance p q = 0 \<longleftrightarrow> p = q"
proof -
  have "(fst p - fst q) ^ 2 + (snd p - snd q) ^ 2 = 0 \<longleftrightarrow> p = q"
    by (auto simp: prod_eq_iff sum_power2_eq_zero_iff)
  then show ?thesis
    unfolding euclidean_distance_def real_sqrt_eq_zero_cancel_iff of_int_eq_0_iff .
qed

lemma collect_points_pixels:
  "\<forall>idx\<in>set idxs. idx < length lms \<Longrightarrow>
   map (\<lambda>idx. spec_pixel h w (lms ! idx)) idxs = map Some pts \<Longrightarrow>
   collect_points lms h w idxs acc = Inr (acc @ pts)"
proof (induction idxs arbitrary: acc pts)
  case Nil
  then show ?case by simp
next
  case (Cons idx rest)
  from Cons.prems(2) obtain p ps where pts: "pts = p # ps"
    and p: "spec_pixel h w (lms ! idx) = Some p"
    and ps: "map (\<lambda>idx. spec_pixel h w (lms ! idx)) rest = map Some ps"
    by (cases pts) auto
  from p obtain x y where lm: "lms ! idx = (Finite x, Finite y)"
    and pxy: "p = (trunc (x * of_int w), trunc (y * of_int h))"
    by (cases "(h, w, lms ! idx)" rule: spec_pixel.cases) auto
  from Cons.prems(1) have "idx < length lms" and rest: "\<forall>i\<in>set rest. i < length lms"
    by simp_all
  with Cons.IH [OF rest ps, of "acc @ [p]"] show ?case
    by (simp add: lm pxy pts)
qed

lemma calculate_eye_ear_ok:
  "length eye = 6 \<Longrightarrow> eye ! 0 \<noteq> eye ! 3 \<Longrightarrow> calculate_eye_ear eye = Inr (spec_ratio eye)"
  by (simp add: calculate_eye_ear_def spec_ratio_def euclidean_distance_zero_iff
      euclidean_distance_spec [symmetric])

lemma calculate_eye_ear_zero:
  "length eye = 6 \<Longrightarrow> eye ! 0 = eye ! 3 \<Longrightarrow> calculate_eye_ear eye = Inl ZeroDivisionError"
  by (simp add: calculate_eye_ear_def euclidean_distance_zero_iff)

lemma eye_indices_bound: "387 < n \<Longrightarrow> \<forall>idx\<in>set (LEFT_EYE @ RIGHT_EYE). idx < n"
  by (simp add: LEFT_EYE_def RIGHT_EYE_def)

lemma spec_distance_pos_iff: "0 < spec_distance p q \<longleftrightarrow> p \<noteq> q"
  using euclidean_distance_zero_iff [of p q] euclidean_distance_nonneg [of p q]
  by (auto simp: euclidean_distance_spec)

lemma calculate_EAR_spec:
  assumes len: "387 < length lms"
    and pts: "map (\<lambda>idx. spec_pixel h w (lms ! idx)) (LEFT_EYE @ RIGHT_EYE) = map Some pts"
    and left: "0 < spec_distance (pts ! 0) (pts ! 3)"
    and right: "0 < spec_distance (pts ! 6) (pts ! 9)"
  shows "calculate_EAR (Some lms) (h, w, c) = Some (spec_metric pts)"
proof -
  have n: "length pts = 12"
    using arg_cong [OF pts, of length] by (simp add: LEFT_EYE_def RIGHT_EYE_def)
  have cp: "collect_points lms h w (LEFT_EYE @ RIGHT_EYE) [] = Inr pts"
    using collect_points_pixels [OF eye_indices_bound [OF len] pts, of "[]"] by simp
  have "take 6 pts ! 0 \<noteq> take 6 pts ! 3"
    using left n by (simp add: spec_distance_pos_iff)
  then have l: "calculate_eye_ear (take 6 pts) = Inr (spec_ratio (take 6 pts))"
    using n by (intro calculate_eye_ear_ok) simp_all
  have "drop 6 pts ! 0 \<noteq> drop 6 pts ! 3"
    using right n by (simp add: spec_distance_pos_iff)
  then have r: "calculate_eye_ear (drop 6 pts) = Inr (spec_ratio (drop 6 pts))"
    using n by (intro calculate_eye_ear_ok) simp_all
  show ?thesis
    by (simp add: calculate_EAR_def calculate_EAR_try_def cp l r spec_metric_def)
qed

lemma calculate_EAR_degenerate:
  assumes len: "387 < length lms"
    and pts: "map (\<lambda>idx. spec_pixel h w (lms ! idx)) (LEFT_EYE @ RIGHT_EYE) = map Some pts"
    and zero: "spec_distance (pts ! 0) (pts ! 3) = 0 \<or> spec_distance (pts ! 6) (pts ! 9) = 0"
  shows "calculate_EAR_try lms (h, w, c) = Inl ZeroDivisionError"
proof -
  have n: "length pts = 12"
    using arg_cong [OF pts, of length] by (simp add: LEFT_EYE_def RIGHT_EYE_def)
  have cp: "collect_points lms h w (LEFT_EYE @ RIGHT_EYE) [] = Inr pts"
    using collect_points_pixels [OF eye_indices_bound [OF len] pts, of "[]"] by simp
  show ?thesis
  proof (cases "pts ! 0 = pts ! 3")
    case True
    then have "calculate_eye_ear (take 6 pts) = Inl ZeroDivisionError"
      using n by (intro calculate_eye_ear_zero) simp_all
    then show ?thesis
      by (simp add: calculate_EAR_try_def cp)
  next
    case False
    then have l: "calculate_eye_ear (take 6 pts) = Inr (spec_ratio (take 6 pts))"
      using n by (intro calculate_eye_ear_ok) simp_all
    from False zero have "pts ! 6 = pts ! 9"
      using spec_distance_pos_iff [of "pts ! 0" "pts ! 3"] spec_distance_pos_iff [of "pts ! 6" "pts ! 9"]
      by auto
    then have "calculate_eye_ear (drop 6 pts) = Inl ZeroDivisionError"
      using n by (intro calculate_eye_ear_zero) simp_all
    then show ?thesis
      by (simp add: calculate_EAR_try_def cp l)
  qed
qed

lemma sqrt_4: "sqrt 4 = 2"
  using real_sqrt_abs [of 2] by simp

lemma sqrt_9: "sqrt 9 = 3"
  using real_sqrt_abs [of 3] by simp

lemma sqrt_100: "sqrt 100 = 10"
  using real_sqrt_abs [of 10] by simp

lemma mesh_length: "length (mesh pts) = 478"
proof -
  have "length (fold (\<lambda>(idx, p) lms. lms[idx := f p]) ips lms0) = length lms0" for f :: "int \<times> int \<Rightarrow> landmark" and ips lms0
    by (induction ips arbitrary: lms0) auto
  then show ?thesis by (simp add: mesh_def)
qed

lemma mesh_pixels:
  "map (\<lambda>idx. spec_pixel 100 100 (mesh [p1, p2, p3, p4, p5, p6, q1, q2, q3, q4, q5, q6] ! idx)) (LEFT_EYE @ RIGHT_EYE)
     = map Some [p1, p2, p3, p4, p5, p6, q1, q2, q3, q4, q5, q6]"
  by (simp add: mesh_def LEFT_EYE_def RIGHT_EYE_def trunc_def)


lemma spec_metric_open: "spec_metric open_points = 3 / 10"
  by (simp add: spec_metric_def spec_ratio_def spec_distance_def open_points_def sqrt_9 sqrt_100)

lemma spec_metric_closed: "spec_metric closed_points = 1 / 5"
  by (simp add: spec_metric_def spec_ratio_def spec_distance_def closed_points_def sqrt_4 sqrt_100)

lemma mesh_open_pixels:
  "map (\<lambda>idx. spec_pixel 100 100 (mesh open_points ! idx)) (LEFT_EYE @ RIGHT_EYE)
     = map Some open_points"
  unfolding open_points_def by (rule mesh_pixels)

lemma mesh_closed_pixels:
  "map (\<lambda>idx. spec_pixel 100 100 (mesh closed_points ! idx)) (LEFT_EYE @ RIGHT_EYE)
     = map Some closed_points"
  unfolding closed_points_def by (rule mesh_pixels)

lemma mesh_degenerate_pixels:
  "map (\<lambda>idx. spec_pixel 100 100 (mesh degenerate_points ! idx)) (LEFT_EYE @ RIGHT_EYE)
     = map Some degenerate_points"
  unfolding degenerate_points_def by (rule mesh_pixels)

lemma metric_of_open_eyes: "metric_of open_eyes = Some (3 / 10)"
proof -
  have "0 < spec_distance (open_points ! 0) (open_points ! 3)"
    and "0 < spec_distance (open_points ! 6) (open_points ! 9)"
    by (simp_all add: spec_distance_pos_iff open_points_def)
  then have "calculate_EAR (Some (mesh open_points)) (100, 100, 3) = Some (spec_metric open_points)"
    by (intro calculate_EAR_spec mesh_open_pixels) (simp_all add: mesh_length)
  then show ?thesis
    by (simp add: open_eyes_def spec_metric_open)
qed

lemma metric_of_closed_eyes: "metric_of closed_eyes = Some (1 / 5)"
proof -
  have "0 < spec_distance (closed_points ! 0) (closed_points ! 3)"
    and "0 < spec_distance (closed_points ! 6) (closed_points ! 9)"
    by (simp_all add: spec_distance_pos_iff closed_points_def)
  then have "calculate_EAR (Some (mesh closed_points)) (100, 100, 3) = Some (spec_metric closed_points)"
    by (intro calculate_EAR_spec mesh_closed_pixels) (simp_all add: mesh_length)
  then show ?thesis
    by (simp add: closed_eyes_def spec_metric_closed)
qed

lemma metric_of_degenerate_eyes: "metric_of degenerate_eyes = None"
  using calculate_EAR_degenerate [OF _ mesh_degenerate_pixels, of 3]
  by (simp add: degenerate_eyes_def calculate_EAR_def mesh_length spec_distance_pos_iff
      spec_distance_def degenerate_points_def)



section \<open>The detection state machine\<close>

lemma process_frame_metric:
  "metric_of upload = Some ear \<Longrightarrow>
   process_frame cfg st upload =
     (let st' = check_drowsiness cfg (st\<lparr>frame_count := frame_count st + 1\<rparr>) ear in
      (st', Inr [(''ear'', PFloat (py_round (Finite ear) 4)),
                 (''status'', PStr (if alert_triggered st' then ''DROWSY'' else ''AWAKE'')),
                 (''alert_triggered'', PBool (alert_triggered st')),
                 (''closed_eyes_frames'', PInt (closed_eye_counter st')),
                 (''frame_count'', PInt (frame_count st')),
                 (''drowsy_frames'', PInt (drowsy_frames st'))]))"
  by (cases upload) (simp_all add: process_frame_def)

lemma process_frame_no_metric:
  "metric_of upload = None \<Longrightarrow>
   fst (process_frame cfg st upload) = st\<lparr>frame_count := frame_count st + 1\<rparr>"
  by (cases upload) (simp_all add: process_frame_def)

lemma process_frame_frame_count:
  "frame_count (fst (process_frame cfg st upload)) = frame_count st + 1"
  by (cases upload) (simp_all add: process_frame_def check_drowsiness_def Let_def split: option.split)

lemma map5:
  "map f xs = [a, b, c, d, e] \<Longrightarrow>
   \<exists>x1 x2 x3 x4 x5. xs = [x1, x2, x3, x4, x5] \<and> f x1 = a \<and> f x2 = b \<and> f x3 = c \<and> f x4 = d \<and> f x5 = e"
  by (auto simp: map_eq_Cons_conv)

text \<open>
  Claim C1. With threshold 0.25 and three consecutive frames required, from the initial
  state, five frames whose metrics are 0.30, 0.20, 0.20, 0.20, 0.30 are answered with
  the statuses AWAKE, AWAKE, AWAKE, DROWSY, AWAKE; the alert flag, in the reply and in
  the state, is true on the fourth frame only; the count of drowsy frames is 1 after the
  fourth frame and still 1 after the fifth.
\<close>

theorem hysteresis_scenario:
  assumes thr: "EAR_THRESHOLD cfg = Finite (25 / 100)"
    and n: "CONSECUTIVE_FRAMES cfg = 3"
    and ms: "map metric_of uploads
              = [Some (30 / 100), Some (20 / 100), Some (20 / 100), Some (20 / 100), Some (30 / 100)]"
  shows "map (\<lambda>(st, r). entry r ''status'') (process_frames cfg state uploads)
           = map (\<lambda>s. Some (PStr s)) [''AWAKE'', ''AWAKE'', ''AWAKE'', ''DROWSY'', ''AWAKE'']
       \<and> map (\<lambda>(st, r). entry r ''alert_triggered'') (process_frames cfg state uploads)
           = map (\<lambda>b. Some (PBool b)) [False, False, False, True, False]
       \<and> map (\<lambda>(st, r). alert_triggered st) (process_frames cfg state uploads)
           = [False, False, False, True, False]
       \<and> map (\<lambda>(st, r). drowsy_frames st) (process_frames cfg state uploads) = [0, 0, 0, 1, 1]"
proof -
  from map5 [OF ms] obtain f1 f2 f3 f4 f5 where uploads: "uploads = [f1, f2, f3, f4, f5]"
    and m: "metric_of f1 = Some (30 / 100)" "metric_of f2 = Some (20 / 100)"
      "metric_of f3 = Some (20 / 100)" "metric_of f4 = Some (20 / 100)"
      "metric_of f5 = Some (30 / 100)"
    by blast
  note step = m [THEN process_frame_metric]
  show ?thesis
    by (simp add: uploads step state_def check_drowsiness_def thr n)
qed


theorem hysteresis_scenario_witness:
  "EAR_THRESHOLD (settings\<lparr>CONSECUTIVE_FRAMES := 3\<rparr>) = Finite (25 / 100)
   \<and> CONSECUTIVE_FRAMES (settings\<lparr>CONSECUTIVE_FRAMES := 3\<rparr>) = 3
   \<and> map metric_of [open_eyes, closed_eyes, closed_eyes, closed_eyes, open_eyes]
       = [Some (30 / 100), Some (20 / 100), Some (20 / 100), Some (20 / 100), Some (30 / 100)]
   \<and> map (\<lambda>(st, r). entry r ''status'')
         (process_frames (settings\<lparr>CONSECUTIVE_FRAMES := 3\<rparr>) state
            [open_eyes, closed_eyes, closed_eyes, closed_eyes, open_eyes])
       = map (\<lambda>s. Some (PStr s)) [''AWAKE'', ''AWAKE'', ''AWAKE'', ''DROWSY'', ''AWAKE'']
   \<and> map (\<lambda>(st, r). entry r ''alert_triggered'')
         (process_frames (settings\<lparr>CONSECUTIVE_FRAMES := 3\<rparr>) state
            [open_eyes, closed_eyes, closed_eyes, closed_eyes, open_eyes])
       = map (\<lambda>b. Some (PBool b)) [False, False, False, True, False]
   \<and> map (\<lambda>(st, r). drowsy_frames st)
         (process_frames (settings\<lparr>CONSECUTIVE_FRAMES := 3\<rparr>) state
            [open_eyes, closed_eyes, closed_eyes, closed_eyes, open_eyes])
       = [0, 0, 0, 1, 1]"
proof -
  have thr: "EAR_THRESHOLD (settings\<lparr>CONSECUTIVE_FRAMES := 3\<rparr>) = Finite (25 / 100)"
    by (simp add: settings_def)
  have n: "CONSECUTIVE_FRAMES (settings\<lparr>CONSECUTIVE_FRAMES := 3\<rparr>) = 3"
    by simp
  have ms: "map metric_of [open_eyes, closed_eyes, closed_eyes, closed_eyes, open_eyes]
      = [Some (30 / 100), Some (20 / 100), Some (20 / 100), Some (20 / 100), Some (30 / 100)]"
    by (simp add: metric_of_open_eyes metric_of_closed_eyes)
  from hysteresis_scenario [OF thr n ms] thr n ms show ?thesis
    by blast
qed

lemma map4:
  "map f xs = [a, b, c, d] \<Longrightarrow>
   \<exists>x1 x2 x3 x4. xs = [x1, x2, x3, x4] \<and> f x1 = a \<and> f x2 = b \<and> f x3 = c \<and> f x4 = d"
  by (auto simp: map_eq_Cons_conv)

lemma process_frame_no_metric_reply:
  "metric_of upload = None \<Longrightarrow> upload \<noteq> Invalid_image \<Longrightarrow>
   entry (snd (process_frame cfg st upload)) ''alert_triggered'' = Some (PBool False)
   \<and> entry (snd (process_frame cfg st upload)) ''status''
       = Some (PStr (if upload = No_face then ''NO_FACE'' else ''ERROR''))"
  by (cases upload) (simp_all add: process_frame_def)

text \<open>
  Claim C4. For every state and configuration, a frame without a metric leaves the run
  length \<open>closed_eye_counter\<close> and the latch \<open>alert_triggered\<close> as they were; the reply
  has the status \<open>NO_FACE\<close> when no face was detected and \<open>ERROR\<close> when \<open>calculate_EAR\<close>
  failed. With threshold 0.25 and three consecutive frames required, from the initial
  state, frames with the metrics 0.20, 0.20, none, 0.20 leave the run lengths
  1, 2, 2, 3, and the last reply has the status \<open>DROWSY\<close>.
\<close>

theorem unreadable_frame_carry_over:
  "(metric_of upload = None \<longrightarrow>
      closed_eye_counter (fst (process_frame cfg st upload)) = closed_eye_counter st
      \<and> alert_triggered (fst (process_frame cfg st upload)) = alert_triggered st)
   \<and> entry (snd (process_frame cfg st No_face)) ''status'' = Some (PStr ''NO_FACE'')
   \<and> (calculate_EAR landmarks frame_shape = None \<longrightarrow>
        entry (snd (process_frame cfg st (Face landmarks frame_shape))) ''status''
          = Some (PStr ''ERROR''))
   \<and> (EAR_THRESHOLD cfg = Finite (25 / 100) \<and> CONSECUTIVE_FRAMES cfg = 3
        \<and> map metric_of uploads = [Some (20 / 100), Some (20 / 100), None, Some (20 / 100)] \<longrightarrow>
        map (\<lambda>(st, r). closed_eye_counter st) (process_frames cfg state uploads) = [1, 2, 2, 3]
        \<and> entry (snd (last (process_frames cfg state uploads))) ''status''
            = Some (PStr ''DROWSY''))"
proof (intro conjI impI)
  assume "metric_of upload = None"
  from process_frame_no_metric [OF this, of cfg st]
  show "closed_eye_counter (fst (process_frame cfg st upload)) = closed_eye_counter st"
    and "alert_triggered (fst (process_frame cfg st upload)) = alert_triggered st"
    by simp_all
next
  show "entry (snd (process_frame cfg st No_face)) ''status'' = Some (PStr ''NO_FACE'')"
    by (simp add: process_frame_def)
next
  assume "calculate_EAR landmarks frame_shape = None"
  then show "entry (snd (process_frame cfg st (Face landmarks frame_shape))) ''status''
      = Some (PStr ''ERROR'')"
    by (simp add: process_frame_def)
next
  assume a: "EAR_THRESHOLD cfg = Finite (25 / 100) \<and> CONSECUTIVE_FRAMES cfg = 3
    \<and> map metric_of uploads = [Some (20 / 100), Some (20 / 100), None, Some (20 / 100)]"
  then obtain f1 f2 f3 f4 where uploads: "uploads = [f1, f2, f3, f4]"
    and m: "metric_of f1 = Some (20 / 100)" "metric_of f2 = Some (20 / 100)"
      "metric_of f4 = Some (20 / 100)"
    and m3: "metric_of f3 = None"
    using map4 [of metric_of uploads] by blast
  note step = m [THEN process_frame_metric] process_frame_no_metric [OF m3]
  from a show "map (\<lambda>(st, r). closed_eye_counter st) (process_frames cfg state uploads) = [1, 2, 2, 3]"
    by (simp add: uploads step state_def check_drowsiness_def split_beta)
  from a show "entry (snd (last (process_frames cfg state uploads))) ''status''
      = Some (PStr ''DROWSY'')"
    by (simp add: uploads step state_def check_drowsiness_def split_beta)
qed


theorem unreadable_frame_carry_over_witness:
  "metric_of degenerate_eyes = None
   \<and> closed_eye_counter (fst (process_frame settings
         \<lparr>closed_eye_counter = 2, alert_triggered = False, frame_count = 2, drowsy_frames = 0\<rparr>
         degenerate_eyes)) = 2
   \<and> calculate_EAR (Some (mesh degenerate_points)) (100, 100, 3) = None
   \<and> entry (snd (process_frame settings state (Face (Some (mesh degenerate_points)) (100, 100, 3))))
         ''status'' = Some (PStr ''ERROR'')
   \<and> EAR_THRESHOLD (settings\<lparr>CONSECUTIVE_FRAMES := 3\<rparr>) = Finite (25 / 100)
   \<and> CONSECUTIVE_FRAMES (settings\<lparr>CONSECUTIVE_FRAMES := 3\<rparr>) = 3
   \<and> map metric_of [closed_eyes, closed_eyes, No_face, closed_eyes]
       = [Some (20 / 100), Some (20 / 100), None, Some (20 / 100)]
   \<and> map (\<lambda>(st, r). closed_eye_counter st)
         (process_frames (settings\<lparr>CONSECUTIVE_FRAMES := 3\<rparr>) state
            [closed_eyes, closed_eyes, No_face, closed_eyes]) = [1, 2, 2, 3]
   \<and> entry (snd (last (process_frames (settings\<lparr>CONSECUTIVE_FRAMES := 3\<rparr>) state
         [closed_eyes, closed_eyes, No_face, closed_eyes]))) ''status'' = Some (PStr ''DROWSY'')"
proof -
  have none: "metric_of degenerate_eyes = None"
    by (rule metric_of_degenerate_eyes)
  then have ear: "calculate_EAR (Some (mesh degenerate_points)) (100, 100, 3) = None"
    by (simp add: degenerate_eyes_def)
  have cfg: "EAR_THRESHOLD (settings\<lparr>CONSECUTIVE_FRAMES := 3\<rparr>) = Finite (25 / 100)
      \<and> CONSECUTIVE_FRAMES (settings\<lparr>CONSECUTIVE_FRAMES := 3\<rparr>) = 3
      \<and> map metric_of [closed_eyes, closed_eyes, No_face, closed_eyes]
          = [Some (20 / 100), Some (20 / 100), None, Some (20 / 100)]"
    by (simp add: settings_def metric_of_closed_eyes)
  from unreadable_frame_carry_over
    [of degenerate_eyes settings
      "\<lparr>closed_eye_counter = 2, alert_triggered = False, frame_count = 2, drowsy_frames = 0\<rparr>"]
    none
  have one: "closed_eye_counter (fst (process_frame settings
         \<lparr>closed_eye_counter = 2, alert_triggered = False, frame_count = 2, drowsy_frames = 0\<rparr>
         degenerate_eyes)) = 2"
    by simp
  from unreadable_frame_carry_over
    [of No_face settings state "Some (mesh degenerate_points)" "(100, 100, 3)"] ear
  have two: "entry (snd (process_frame settings state (Face (Some (mesh degenerate_points)) (100, 100, 3))))
         ''status'' = Some (PStr ''ERROR'')"
    by blast
  from unreadable_frame_carry_over
    [of No_face "settings\<lparr>CONSECUTIVE_FRAMES := 3\<rparr>" state None "(100, 100, 3)"
      "[closed_eyes, closed_eyes, No_face, closed_eyes]"] cfg
  have three: "map (\<lambda>(st, r). closed_eye_counter st)
         (process_frames (settings\<lparr>CONSECUTIVE_FRAMES := 3\<rparr>) state
            [closed_eyes, closed_eyes, No_face, closed_eyes]) = [1, 2, 2, 3]
   \<and> entry (snd (last (process_frames (settings\<lparr>CONSECUTIVE_FRAMES := 3\<rparr>) state
         [closed_eyes, closed_eyes, No_face, closed_eyes]))) ''status'' = Some (PStr ''DROWSY'')"
    by blast
  from none one ear two cfg three show ?thesis
    by blast
qed

lemma run_process_frames_frame_count:
  "frame_count (snd (run B (cfg, st) (map ProcessFrame uploads)))
     = frame_count st + int (length uploads)"
proof (induction uploads arbitrary: st)
  case Nil
  show ?case by simp
next
  case (Cons upload uploads)
  obtain st' r where pf: "process_frame cfg st upload = (st', r)"
    by (cases "process_frame cfg st upload")
  with process_frame_frame_count [of cfg st upload] have "frame_count st' = frame_count st + 1"
    by simp
  with Cons.IH [of st'] show ?case
    by (simp add: pf)
qed

lemma process_frames_frame_count:
  "map (\<lambda>(st, r). frame_count st) (process_frames cfg st uploads)
     = map (\<lambda>k. frame_count st + int k) [1..<Suc (length uploads)]"
proof (induction uploads arbitrary: st)
  case Nil
  show ?case by simp
next
  case (Cons upload uploads)
  let ?st' = "fst (process_frame cfg st upload)"
  have fc: "frame_count ?st' = frame_count st + 1"
    by (rule process_frame_frame_count)
  have "[1..<Suc (length (upload # uploads))] = 1 # [Suc 1..<Suc (Suc (length uploads))]"
    by (simp only: list.size upt_conv_Cons) simp
  also have "[Suc 1..<Suc (Suc (length uploads))] = map Suc [1..<Suc (length uploads)]"
    by (simp only: map_Suc_upt)
  finally have idx: "[1..<Suc (length (upload # uploads))] = 1 # map Suc [1..<Suc (length uploads)]" .
  have "map (\<lambda>(st, r). frame_count st) (process_frames cfg ?st' uploads)
      = map (\<lambda>k. frame_count ?st' + int k) [1..<Suc (length uploads)]"
    by (rule Cons.IH)
  also have "\<dots> = map (\<lambda>k. frame_count st + int (Suc k)) [1..<Suc (length uploads)]"
    by (rule map_cong) (simp_all add: fc)
  finally have tl: "map (\<lambda>(st, r). frame_count st) (process_frames cfg ?st' uploads)
      = map (\<lambda>k. frame_count st + int (Suc k)) [1..<Suc (length uploads)]" .
  have "map (\<lambda>(st, r). frame_count st) (process_frames cfg st (upload # uploads))
      = frame_count ?st' # map (\<lambda>(st, r). frame_count st) (process_frames cfg ?st' uploads)"
    by (simp add: split_beta)
  also have "\<dots> = (frame_count st + int 1) # map (\<lambda>k. frame_count st + int (Suc k)) [1..<Suc (length uploads)]"
    by (simp only: tl fc) simp
  also have "\<dots> = map (\<lambda>k. frame_count st + int k) (1 # map Suc [1..<Suc (length uploads)])"
    by (simp only: list.map map_map comp_def)
  finally show ?case
    by (simp only: idx)
qed

text \<open>
  Claim C6. Every call of \<open>process_frame\<close> adds exactly one to \<open>frame_count\<close>, whatever
  the frame is (no face, failed metric and undecodable image included): after the k-th
  of any list of frames the counter is its starting value plus k, and after all N of
  them it is the starting value plus N.
\<close>

theorem frame_count_counts_every_frame:
  "frame_count (fst (process_frame cfg st upload)) = frame_count st + 1
   \<and> map (\<lambda>(st', r). frame_count st') (process_frames cfg st uploads)
       = map (\<lambda>k. frame_count st + int k) [1..<Suc (length uploads)]
   \<and> frame_count (snd (run B (cfg, st) (map ProcessFrame uploads)))
       = frame_count st + int (length uploads)"
  using process_frame_frame_count [of cfg st upload] process_frames_frame_count [of cfg st uploads]
    run_process_frames_frame_count [of B cfg st uploads]
  by simp

section \<open>Statistics, reset and the invariant of the counters\<close>

lemma get_stats_no_frames:
  "frame_count st = 0 \<Longrightarrow>
   get_stats st = Inr [(''frames_processed'', PInt 0),
                       (''drowsy_frames'', PInt (drowsy_frames st)),
                       (''drowsy_percentage'', PInt 0)]"
  by (simp add: get_stats_def)

lemma round_half_even_close: "\<bar>of_int (round_half_even x) - x\<bar> \<le> 1 / 2"
proof -
  have "of_int \<lfloor>x\<rfloor> \<le> x" and "x < of_int \<lfloor>x\<rfloor> + 1"
    by linarith+
  then show ?thesis
    by (auto simp: round_half_even_def Let_def)
qed

lemma round_decimal_close: "\<bar>round_decimal x n - x\<bar> \<le> 1 / (2 * 10 ^ n)"
proof -
  have pos: "(0::real) < 10 ^ n" by simp
  have "round_decimal x n - x = (of_int (round_half_even (x * 10 ^ n)) - x * 10 ^ n) / 10 ^ n"
    by (simp add: round_decimal_def diff_divide_distrib)
  then have "\<bar>round_decimal x n - x\<bar> = \<bar>of_int (round_half_even (x * 10 ^ n)) - x * 10 ^ n\<bar> / 10 ^ n"
    by simp
  also have "\<dots> \<le> (1 / 2) / 10 ^ n"
    using round_half_even_close [of "x * 10 ^ n"] pos by (intro divide_right_mono) simp_all
  finally show ?thesis by simp
qed

lemma binade_small:
  assumes "x \<noteq> 0" and "\<bar>x\<bar> < 128"
  shows "\<lfloor>log 2 \<bar>x\<bar>\<rfloor> \<le> 6"
proof -
  have "\<bar>x\<bar> < 2 powr 7"
    using assms(2) by simp
  then have "log 2 \<bar>x\<bar> < 7"
    using assms(1) by (subst log_less_iff) simp_all
  then show ?thesis
    by (simp add: floor_le_iff)
qed

text \<open>
  Below 128 in absolute value, \<open>round_double\<close> is finite and at most \<open>2\<^sup>-\<^sup>4\<^sup>7\<close> away from
  its argument.
\<close>

lemma round_double_grid:
  assumes "x \<noteq> 0" and "\<bar>x\<bar> < 128"
  shows "round_double x
      = Finite (of_int (round_half_even (x / 2 powi (max \<lfloor>log 2 \<bar>x\<bar>\<rfloor> (- 1022) - 52)))
          * 2 powi (max \<lfloor>log 2 \<bar>x\<bar>\<rfloor> (- 1022) - 52))"
    and "\<bar>of_int (round_half_even (x / 2 powi (max \<lfloor>log 2 \<bar>x\<bar>\<rfloor> (- 1022) - 52)))
          * 2 powi (max \<lfloor>log 2 \<bar>x\<bar>\<rfloor> (- 1022) - 52) - x\<bar> \<le> 1 / 2 ^ 47"
proof -
  define e where "e = max \<lfloor>log 2 \<bar>x\<bar>\<rfloor> (- 1022)"
  define ulp :: real where "ulp = 2 powi (e - 52)"
  define y where "y = of_int (round_half_even (x / ulp)) * ulp"
  have "e \<le> 6"
    using binade_small [OF assms] by (simp add: e_def)
  then have "ulp \<le> 2 powi (- 46)"
    unfolding ulp_def by (intro power_int_increasing) simp_all
  then have ulp_le: "ulp \<le> 1 / 2 ^ 46"
    by (simp add: power_int_minus_divide)
  have ulp_pos: "0 < ulp"
    by (simp add: ulp_def)
  have "y - x = (of_int (round_half_even (x / ulp)) - x / ulp) * ulp"
    using ulp_pos by (simp add: y_def algebra_simps)
  then have "\<bar>y - x\<bar> = \<bar>of_int (round_half_even (x / ulp)) - x / ulp\<bar> * ulp"
    using ulp_pos by (simp add: abs_mult)
  also have "\<dots> \<le> (1 / 2) * ulp"
    using round_half_even_close [of "x / ulp"] ulp_pos by (intro mult_right_mono) simp_all
  also have "\<dots> \<le> (1 / 2) * (1 / 2 ^ 46)"
    using ulp_le by simp
  finally have close: "\<bar>y - x\<bar> \<le> 1 / 2 ^ 47"
    by simp
  have "\<bar>y\<bar> \<le> \<bar>x\<bar> + 1 / 2 ^ 47"
    using close by linarith
  also have "\<dots> < 129"
    using assms(2) by simp
  finally have "\<bar>y\<bar> < 129" .
  moreover have "(129::real) < 2 ^ 1024"
    by simp
  ultimately have range: "\<not> 2 ^ 1024 \<le> y" "\<not> y \<le> - (2 ^ 1024)"
    by linarith+
  show "round_double x
      = Finite (of_int (round_half_even (x / 2 powi (max \<lfloor>log 2 \<bar>x\<bar>\<rfloor> (- 1022) - 52)))
          * 2 powi (max \<lfloor>log 2 \<bar>x\<bar>\<rfloor> (- 1022) - 52))"
    using assms(1) range by (simp add: round_double_def Let_def e_def ulp_def y_def)
  show "\<bar>of_int (round_half_even (x / 2 powi (max \<lfloor>log 2 \<bar>x\<bar>\<rfloor> (- 1022) - 52)))
          * 2 powi (max \<lfloor>log 2 \<bar>x\<bar>\<rfloor> (- 1022) - 52) - x\<bar> \<le> 1 / 2 ^ 47"
    using close by (simp add: e_def ulp_def y_def)
qed

lemma round_double_close:
  assumes "\<bar>x\<bar> < 128"
  obtains y where "round_double x = Finite y" and "\<bar>y - x\<bar> \<le> 1 / 2 ^ 47"
proof (cases "x = 0")
  case True
  then have "round_double x = Finite 0" and "\<bar>0 - x\<bar> \<le> 1 / 2 ^ 47"
    by (simp_all add: round_double_def)
  then show ?thesis by (rule that)
next
  case False
  from round_double_grid [OF False assms] show ?thesis by (rule that)
qed

lemma round_double_eval:
  assumes "0 < x" and "x < 128" and "2 powi e \<le> x" and "x < 2 powi (e + 1)" and "- 1022 \<le> e"
  shows "round_double x = Finite (of_int (round_half_even (x / 2 powi (e - 52))) * 2 powi (e - 52))"
proof -
  have lo: "2 powr (of_int e) \<le> x"
    using assms(3) by (simp add: powr_real_of_int')
  have "(2::real) powr (of_int (e + 1)) = 2 powi (e + 1)"
    by (rule powr_real_of_int') simp_all
  then have hi: "x < 2 powr (of_int e + 1)"
    using assms(4) by simp
  have "\<lfloor>log 2 x\<rfloor> = e"
    using assms(1) lo hi by (subst floor_log_eq_powr_iff) simp_all
  then have "max \<lfloor>log 2 \<bar>x\<bar>\<rfloor> (- 1022) = e"
    using assms(1,5) by simp
  with round_double_grid(1) [of x] assms(1,2) show ?thesis
    by simp
qed


lemma double_23_160: "int_true_div 23 160 = Inr (Finite (2589569785738035 / 18014398509481984))"
proof -
  have "round_double (23 / 160) = Finite (2589569785738035 / 18014398509481984)"
    by (subst round_double_eval [where e = "- 3"])
      (simp_all add: round_half_even_def Let_def power_int_minus_divide)
  then show ?thesis
    by (simp add: int_true_div_def)
qed

lemma double_times_100:
  "float_mul (Finite (2589569785738035 / 18014398509481984)) (Finite 100)
     = Finite (8092405580431359 / 562949953421312)"
  by (simp, subst round_double_eval [where e = 3])
    (simp_all add: round_half_even_def Let_def power_int_minus_divide)

lemma double_round_2:
  "py_round (Finite (8092405580431359 / 562949953421312)) 2
     = Finite (8089590830664253 / 562949953421312)"
proof -
  have dec: "round_decimal (8092405580431359 / 562949953421312) 2 = 1437 / 100"
    by (simp add: round_decimal_def round_half_even_def Let_def)
  have "round_double (1437 / 100) = Finite (8089590830664253 / 562949953421312)"
    by (subst round_double_eval [where e = 3])
      (simp_all add: round_half_even_def Let_def power_int_minus_divide)
  then show ?thesis
    by (simp only: py_round.simps dec)
qed


text \<open>
  Claim C7 says that the percentage is \<open>100 * drowsy_frames / max(frame_count, 1)\<close>
  rounded to two decimals. After 160 frames of which 23 were drowsy the exact quotient
  is 14.375, which rounds to 14.38. The code computes \<open>(23 / 160) * 100\<close> in doubles,
  gets a value just below 14.375 and returns the double of 14.37: a number more than
  0.005 away from the exact quotient.
\<close>

theorem get_stats_tie_counterexample:
  "get_stats \<lparr>closed_eye_counter = 0, alert_triggered = False, frame_count = 160, drowsy_frames = 23\<rparr>
     = Inr [(''frames_processed'', PInt 160),
            (''drowsy_frames'', PInt 23),
            (''drowsy_percentage'', PFloat (Finite (8089590830664253 / 562949953421312)))]
   \<and> \<bar>8089590830664253 / 562949953421312 - 1437 / 100\<bar> < (1 / 10 ^ 15 :: real)
   \<and> (100 * 23 / max 160 1 :: real) = 14375 / 1000
   \<and> (1 / 200 :: real) < 100 * 23 / max 160 1 - 8089590830664253 / 562949953421312
   \<and> round_decimal (100 * 23 / max 160 1) 2 = 1438 / 100"
proof -
  have "get_stats \<lparr>closed_eye_counter = 0, alert_triggered = False, frame_count = 160, drowsy_frames = 23\<rparr>
     = Inr [(''frames_processed'', PInt 160),
            (''drowsy_frames'', PInt 23),
            (''drowsy_percentage'', PFloat (Finite (8089590830664253 / 562949953421312)))]"
    by (simp add: get_stats_def double_23_160 double_times_100 double_round_2 del: py_round.simps float_mul.simps)
  moreover have "\<bar>8089590830664253 / 562949953421312 - 1437 / 100\<bar> < (1 / 10 ^ 15 :: real)"
    by simp
  moreover have "(1 / 200 :: real) < 100 * 23 / max 160 1 - 8089590830664253 / 562949953421312"
    by simp
  moreover have "round_decimal (100 * 23 / max 160 1) 2 = 1438 / 100"
    by (simp add: round_decimal_def round_half_even_def Let_def)
  ultimately show ?thesis
    by simp
qed

lemma get_stats_percentage_bound:
  assumes ok: "counters_ok st" and pos: "0 < frame_count st"
  obtains k :: int and v where
    "get_stats st = Inr [(''frames_processed'', PInt (frame_count st)),
                         (''drowsy_frames'', PInt (drowsy_frames st)),
                         (''drowsy_percentage'', PFloat (Finite v))]"
    and "round_double (of_int k / 100) = Finite v"
    and "\<bar>v - 100 * of_int (drowsy_frames st) / of_int (max (frame_count st) 1)\<bar>
          \<le> 1 / 200 + 1 / 2 ^ 40"
proof -
  define x :: real where "x = of_int (drowsy_frames st) / of_int (max (frame_count st) 1)"
  have x_range: "0 \<le> x" "x \<le> 1"
    using ok pos by (simp_all add: x_def counters_ok_def)
  then have "\<bar>x\<bar> < 128" by simp
  then obtain a where a: "round_double x = Finite a" and a_close: "\<bar>a - x\<bar> \<le> 1 / 2 ^ 47"
    by (rule round_double_close)
  have div: "int_true_div (drowsy_frames st) (max (frame_count st) 1) = Inr (Finite a)"
    using pos a by (simp add: int_true_div_def x_def)
  have "\<bar>a\<bar> \<le> 1 + 1 / 2 ^ 47"
    using a_close x_range by linarith
  then have "\<bar>a * 100\<bar> < 128"
    by (simp add: abs_mult)
  then obtain b where b: "round_double (a * 100) = Finite b" and b_close: "\<bar>b - a * 100\<bar> \<le> 1 / 2 ^ 47"
    by (rule round_double_close)
  have ab: "\<bar>b - 100 * x\<bar> \<le> 101 / 2 ^ 47"
    using a_close b_close by linarith
  define c where "c = round_decimal b 2"
  have c_close: "\<bar>c - b\<bar> \<le> 1 / 200"
    using round_decimal_close [of b 2] by (simp add: c_def)
  have small: "(101::real) / 2 ^ 47 \<le> 1"
    by simp
  have "\<bar>c\<bar> < 128"
    using c_close ab x_range small by linarith
  then obtain v where v: "round_double c = Finite v" and v_close: "\<bar>v - c\<bar> \<le> 1 / 2 ^ 47"
    by (rule round_double_close)
  have stats: "get_stats st = Inr [(''frames_processed'', PInt (frame_count st)),
                         (''drowsy_frames'', PInt (drowsy_frames st)),
                         (''drowsy_percentage'', PFloat (Finite v))]"
  proof -
    have mx: "max (frame_count st) 1 = frame_count st"
      using pos by simp
    have pct: "round_val (PFloat (float_mul (Finite a) (Finite 100))) 2 = PFloat (Finite v)"
      by (simp add: b v c_def [symmetric])
    show ?thesis
      using pos div pct by (simp add: get_stats_def mx del: round_val.simps float_mul.simps)
  qed
  have grid: "round_double (of_int (round_half_even (b * 10 ^ 2)) / 100) = Finite v"
    using v by (simp add: c_def round_decimal_def)
  have "\<bar>v - 100 * x\<bar> \<le> 1 / 200 + 102 / 2 ^ 47"
    using ab c_close v_close by linarith
  also have "\<dots> \<le> 1 / 200 + 1 / 2 ^ 40"
    by simp
  finally have "\<bar>v - 100 * of_int (drowsy_frames st) / of_int (max (frame_count st) 1)\<bar>
          \<le> 1 / 200 + 1 / 2 ^ 40"
    by (simp add: x_def)
  with stats grid show ?thesis
    by (rule that)
qed


text \<open>
  Claim C7, as the code has it. For every state with \<open>0 \<le> drowsy_frames \<le> frame_count\<close>
  (every state the server reaches), \<open>get_stats\<close> returns \<open>frame_count\<close> and
  \<open>drowsy_frames\<close>. With \<open>frame_count = 0\<close> the percentage is the integer 0 and no
  division takes place. Otherwise the percentage is a double: the one nearest to some
  number of two decimals, and within \<open>0.005 + 2\<^sup>-\<^sup>4\<^sup>0\<close> of the exact quotient
  \<open>100 * drowsy_frames / max(frame_count, 1)\<close>.
\<close>

theorem get_stats_percentage:
  assumes "counters_ok st"
  shows "entry (get_stats st) ''frames_processed'' = Some (PInt (frame_count st))
    \<and> entry (get_stats st) ''drowsy_frames'' = Some (PInt (drowsy_frames st))
    \<and> (frame_count st = 0 \<longrightarrow> entry (get_stats st) ''drowsy_percentage'' = Some (PInt 0))
    \<and> (0 < frame_count st \<longrightarrow>
         (\<exists>(k::int) v.
            entry (get_stats st) ''drowsy_percentage'' = Some (PFloat (Finite v))
            \<and> round_double (of_int k / 100) = Finite v
            \<and> \<bar>v - 100 * of_int (drowsy_frames st) / of_int (max (frame_count st) 1)\<bar>
                 \<le> 1 / 200 + 1 / 2 ^ 40))"
proof (cases "0 < frame_count st")
  case True
  from assms True obtain k :: int and v where
    stats: "get_stats st = Inr [(''frames_processed'', PInt (frame_count st)),
                         (''drowsy_frames'', PInt (drowsy_frames st)),
                         (''drowsy_percentage'', PFloat (Finite v))]"
    and grid: "round_double (of_int k / 100) = Finite v"
    and close: "\<bar>v - 100 * of_int (drowsy_frames st) / of_int (max (frame_count st) 1)\<bar>
          \<le> 1 / 200 + 1 / 2 ^ 40"
    by (rule get_stats_percentage_bound)
  have "\<exists>(k::int) v.
            entry (get_stats st) ''drowsy_percentage'' = Some (PFloat (Finite v))
            \<and> round_double (of_int k / 100) = Finite v
            \<and> \<bar>v - 100 * of_int (drowsy_frames st) / of_int (max (frame_count st) 1)\<bar>
                 \<le> 1 / 200 + 1 / 2 ^ 40"
    using grid close by (intro exI [of _ k] exI [of _ v]) (simp add: stats)
  with True show ?thesis
    by (simp add: stats)
next
  case False
  with assms have zero: "frame_count st = 0"
    by (simp add: counters_ok_def)
  then show ?thesis
    by (simp add: get_stats_no_frames)
qed

theorem get_stats_percentage_witness:
  "counters_ok \<lparr>closed_eye_counter = 0, alert_triggered = False, frame_count = 160, drowsy_frames = 23\<rparr>
   \<and> (\<exists>(k::int) v.
         entry (get_stats
           \<lparr>closed_eye_counter = 0, alert_triggered = False, frame_count = 160, drowsy_frames = 23\<rparr>)
           ''drowsy_percentage'' = Some (PFloat (Finite v))
         \<and> round_double (of_int k / 100) = Finite v
         \<and> \<bar>v - 100 * 23 / 160\<bar> \<le> 1 / 200 + 1 / 2 ^ 40)
   \<and> counters_ok state
   \<and> entry (get_stats state) ''drowsy_percentage'' = Some (PInt 0)"
proof -
  have ok: "counters_ok
      \<lparr>closed_eye_counter = 0, alert_triggered = False, frame_count = 160, drowsy_frames = 23\<rparr>"
    and ok0: "counters_ok state"
    by (simp_all add: counters_ok_def state_def)
  have zero: "frame_count state = 0"
    by (simp add: state_def)
  from get_stats_percentage [OF ok0] zero
  have none: "entry (get_stats state) ''drowsy_percentage'' = Some (PInt 0)"
    by blast
  from get_stats_percentage [OF ok]
  have "\<exists>(k::int) v.
         entry (get_stats
           \<lparr>closed_eye_counter = 0, alert_triggered = False, frame_count = 160, drowsy_frames = 23\<rparr>)
           ''drowsy_percentage'' = Some (PFloat (Finite v))
         \<and> round_double (of_int k / 100) = Finite v
         \<and> \<bar>v - 100 * 23 / 160\<bar> \<le> 1 / 200 + 1 / 2 ^ 40"
    by simp
  with ok ok0 none show ?thesis
    by blast
qed

lemma process_frame_below_threshold:
  "metric_of upload = Some ear \<Longrightarrow> float_lt (Finite ear) (EAR_THRESHOLD cfg) \<Longrightarrow>
   closed_eye_counter (fst (process_frame cfg st upload)) = closed_eye_counter st + 1"
  by (simp add: process_frame_metric check_drowsiness_def Let_def)

text \<open>
  Claim C8. \<open>reset_stats\<close> sets the run length, the two counters to 0 and the latch to
  false, whatever the state was, and leaves the settings as they are; \<open>get_stats\<close> right
  after it returns 0, 0 and 0; and the next frame whose metric is below the threshold
  takes the run length to 1.
\<close>

theorem reset_stats_resets:
  "closed_eye_counter (fst (reset_stats st)) = 0
   \<and> alert_triggered (fst (reset_stats st)) = False
   \<and> frame_count (fst (reset_stats st)) = 0
   \<and> drowsy_frames (fst (reset_stats st)) = 0
   \<and> fst (handle B (cfg, st) Reset) = (cfg, fst (reset_stats st))
   \<and> entry (get_stats (fst (reset_stats st))) ''frames_processed'' = Some (PInt 0)
   \<and> entry (get_stats (fst (reset_stats st))) ''drowsy_frames'' = Some (PInt 0)
   \<and> Option.bind (entry (get_stats (fst (reset_stats st))) ''drowsy_percentage'') number_of
       = Some 0
   \<and> (metric_of upload = Some ear \<and> float_lt (Finite ear) (EAR_THRESHOLD cfg) \<longrightarrow>
        closed_eye_counter (fst (process_frame cfg (fst (reset_stats st)) upload)) = 1)"
proof -
  have "metric_of upload = Some ear \<and> float_lt (Finite ear) (EAR_THRESHOLD cfg) \<longrightarrow>
        closed_eye_counter (fst (process_frame cfg (fst (reset_stats st)) upload)) = 1"
    using process_frame_below_threshold [of upload ear cfg "fst (reset_stats st)"]
    by (simp add: reset_stats_def)
  then show ?thesis
    by (simp add: reset_stats_def get_stats_no_frames)
qed

theorem reset_stats_resets_witness:
  "metric_of closed_eyes = Some (1 / 5)
   \<and> float_lt (Finite (1 / 5)) (EAR_THRESHOLD settings)
   \<and> closed_eye_counter (fst (process_frame settings (fst (reset_stats
        \<lparr>closed_eye_counter = 7, alert_triggered = True, frame_count = 40, drowsy_frames = 5\<rparr>))
        closed_eyes)) = 1"
proof -
  have hyp: "metric_of closed_eyes = Some (1 / 5) \<and> float_lt (Finite (1 / 5)) (EAR_THRESHOLD settings)"
    by (simp add: metric_of_closed_eyes settings_def)
  from reset_stats_resets
    [of "\<lparr>closed_eye_counter = 7, alert_triggered = True, frame_count = 40, drowsy_frames = 5\<rparr>"
      no_strings settings closed_eyes "1 / 5"] hyp
  show ?thesis
    by blast
qed

text \<open>
  Claim C9. On a frame without a metric that gets a reply (no face, or a failed
  \<open>calculate_EAR\<close>), the reply's \<open>alert_triggered\<close> is false, while the latch of the state
  keeps its value: when the latch is set, the reply does not report it.
\<close>

theorem unreadable_frame_alert_flag:
  assumes "metric_of upload = None" and "upload \<noteq> Invalid_image"
  shows "entry (snd (process_frame cfg st upload)) ''alert_triggered'' = Some (PBool False)
    \<and> alert_triggered (fst (process_frame cfg st upload)) = alert_triggered st
    \<and> (alert_triggered st \<longrightarrow>
         entry (snd (process_frame cfg st upload)) ''alert_triggered''
           \<noteq> Some (PBool (alert_triggered (fst (process_frame cfg st upload)))))"
  using process_frame_no_metric_reply [OF assms, of cfg st] process_frame_no_metric [OF assms(1), of cfg st]
  by simp

theorem unreadable_frame_alert_flag_witness:
  "metric_of No_face = None \<and> No_face \<noteq> Invalid_image
   \<and> alert_triggered
       \<lparr>closed_eye_counter = 3, alert_triggered = True, frame_count = 4, drowsy_frames = 1\<rparr>
   \<and> entry (snd (process_frame settings
         \<lparr>closed_eye_counter = 3, alert_triggered = True, frame_count = 4, drowsy_frames = 1\<rparr>
         No_face)) ''alert_triggered'' = Some (PBool False)
   \<and> alert_triggered (fst (process_frame settings
         \<lparr>closed_eye_counter = 3, alert_triggered = True, frame_count = 4, drowsy_frames = 1\<rparr>
         No_face)) = True"
proof -
  have a: "metric_of No_face = None" and b: "No_face \<noteq> Invalid_image"
    by simp_all
  from unreadable_frame_alert_flag [OF a b, of settings
      "\<lparr>closed_eye_counter = 3, alert_triggered = True, frame_count = 4, drowsy_frames = 1\<rparr>"]
  show ?thesis
    by simp
qed

lemma process_frame_counters_ok:
  "counters_ok st \<Longrightarrow> counters_ok (fst (process_frame cfg st upload))"
  by (cases upload)
    (auto simp: process_frame_def counters_ok_def check_drowsiness_def Let_def split: option.split)

lemma handle_counters_ok:
  "counters_ok (snd sv) \<Longrightarrow> counters_ok (snd (fst (handle B sv r)))"
proof (cases sv)
  case (Pair cfg st)
  assume "counters_ok (snd sv)"
  with Pair have ok: "counters_ok st" by simp
  show ?thesis
  proof (cases r)
    case (ProcessFrame upload)
    with Pair process_frame_counters_ok [OF ok, of cfg upload] show ?thesis
      by (simp add: split_beta)
  next
    case Reset
    with Pair show ?thesis by (simp add: reset_stats_def counters_ok_def)
  qed (use Pair ok in \<open>simp_all add: split_beta\<close>)
qed

lemma run_counters_ok: "counters_ok (snd sv) \<Longrightarrow> counters_ok (snd (run B sv reqs))"
proof (induction reqs arbitrary: sv)
  case Nil
  then show ?case by simp
next
  case (Cons r reqs)
  from Cons.IH [OF handle_counters_ok [OF Cons.prems]] show ?case
    by simp
qed

text \<open>
  Claim C10. From the initial state, under any settings, after any list of requests
  (frames, resets, configuration updates, statistics and the others), both cumulative
  counters are non-negative and \<open>drowsy_frames \<le> frame_count\<close>.
\<close>

theorem counters_invariant:
  "0 \<le> drowsy_frames (snd (run B (cfg, state) reqs))
   \<and> 0 \<le> frame_count (snd (run B (cfg, state) reqs))
   \<and> drowsy_frames (snd (run B (cfg, state) reqs)) \<le> frame_count (snd (run B (cfg, state) reqs))"
proof -
  have "counters_ok (snd (cfg, state))"
    by (simp add: counters_ok_def state_def)
  from run_counters_ok [OF this, of B reqs] show ?thesis
    by (simp add: counters_ok_def)
qed

section \<open>Configuration updates\<close>

text \<open>
  Claim C2 says that a request with an out-of-range value is rejected and leaves the
  configuration as it was. \<open>update_config\<close> has no range check: the request
  \<open>{"consecutive_frames": -5}\<close> on the default settings is answered with \<open>updated\<close>, and
  \<open>CONSECUTIVE_FRAMES\<close> is -5 afterwards.
\<close>

theorem update_config_out_of_range_counterexample:
  "update_config no_strings settings [''consecutive_frames'' \<mapsto> PInt (- 5)]
     = (settings\<lparr>CONSECUTIVE_FRAMES := - 5\<rparr>,
        Inr [(''status'', PStr ''updated''),
             (''new_config'', PDict [(''ear_threshold'', PFloat (Finite (25 / 100))),
                                     (''consecutive_frames'', PInt (- 5)),
                                     (''window_size'', PInt 10)])])
   \<and> fst (update_config no_strings settings [''consecutive_frames'' \<mapsto> PInt (- 5)]) \<noteq> settings"
proof -
  have "CONSECUTIVE_FRAMES (settings\<lparr>CONSECUTIVE_FRAMES := - 5\<rparr>) \<noteq> CONSECUTIVE_FRAMES settings"
    by (simp add: settings_def)
  then have "settings\<lparr>CONSECUTIVE_FRAMES := - 5\<rparr> \<noteq> settings"
    by metis
  then show ?thesis
    by (simp add: update_config_def get_config_def) (simp add: settings_def)
qed

text \<open>
  Claim C2, as the code has it. Whenever the values present in a request convert
  (\<open>float(v)\<close> for the threshold, \<open>int(v)\<close> for the two integers), whatever their range
  and non-positive or non-finite ones included, \<open>update_config\<close> accepts the request:
  each present field is overwritten with the converted value, each absent field keeps
  its value, and the reply holds the new configuration.
\<close>

theorem update_config_overwrites:
  assumes "case config ''ear_threshold'' of
             None \<Rightarrow> t = EAR_THRESHOLD cfg | Some v \<Rightarrow> py_float B v = Inr t"
    and "case config ''consecutive_frames'' of
             None \<Rightarrow> n = CONSECUTIVE_FRAMES cfg | Some v \<Rightarrow> py_int B v = Inr n"
    and "case config ''window_size'' of
             None \<Rightarrow> m = WINDOW_SIZE cfg | Some v \<Rightarrow> py_int B v = Inr m"
  shows "update_config B cfg config
     = (cfg\<lparr>EAR_THRESHOLD := t, CONSECUTIVE_FRAMES := n, WINDOW_SIZE := m\<rparr>,
        Inr [(''status'', PStr ''updated''),
             (''new_config'', PDict [(''ear_threshold'', PFloat t),
                                     (''consecutive_frames'', PInt n),
                                     (''window_size'', PInt m)])])"
  using assms by (auto simp: update_config_def get_config_def split: option.splits)

theorem update_config_overwrites_witness:
  "(case [''ear_threshold'' \<mapsto> PFloat PosInf, ''consecutive_frames'' \<mapsto> PInt 0] ''ear_threshold'' of
      None \<Rightarrow> PosInf = EAR_THRESHOLD settings | Some v \<Rightarrow> py_float no_strings v = Inr PosInf)
   \<and> (case [''ear_threshold'' \<mapsto> PFloat PosInf, ''consecutive_frames'' \<mapsto> PInt 0] ''consecutive_frames'' of
      None \<Rightarrow> 0 = CONSECUTIVE_FRAMES settings | Some v \<Rightarrow> py_int no_strings v = Inr 0)
   \<and> (case [''ear_threshold'' \<mapsto> PFloat PosInf, ''consecutive_frames'' \<mapsto> PInt 0] ''window_size'' of
      None \<Rightarrow> 10 = WINDOW_SIZE settings | Some v \<Rightarrow> py_int no_strings v = Inr 10)
   \<and> fst (update_config no_strings settings
        [''ear_threshold'' \<mapsto> PFloat PosInf, ''consecutive_frames'' \<mapsto> PInt 0])
       = settings\<lparr>EAR_THRESHOLD := PosInf, CONSECUTIVE_FRAMES := 0, WINDOW_SIZE := 10\<rparr>"
proof -
  let ?config = "[''ear_threshold'' \<mapsto> PFloat PosInf, ''consecutive_frames'' \<mapsto> PInt 0]"
  have a: "case ?config ''ear_threshold'' of
      None \<Rightarrow> PosInf = EAR_THRESHOLD settings | Some v \<Rightarrow> py_float no_strings v = Inr PosInf"
    by simp
  have b: "case ?config ''consecutive_frames'' of
      None \<Rightarrow> 0 = CONSECUTIVE_FRAMES settings | Some v \<Rightarrow> py_int no_strings v = Inr 0"
    by simp
  have c: "case ?config ''window_size'' of
      None \<Rightarrow> 10 = WINDOW_SIZE settings | Some v \<Rightarrow> py_int no_strings v = Inr 10"
    by (simp add: settings_def)
  from update_config_overwrites [OF a b c]
  have "fst (update_config no_strings settings ?config)
      = settings\<lparr>EAR_THRESHOLD := PosInf, CONSECUTIVE_FRAMES := 0, WINDOW_SIZE := 10\<rparr>"
    by (simp only: fst_conv)
  with a b c show ?thesis
    by blast
qed

text \<open>
  A conversion that raises leaves the fields assigned before it in place: the threshold
  below is changed although the request as a whole fails.
\<close>

lemma update_config_partial:
  "update_config B settings [''ear_threshold'' \<mapsto> PFloat (Finite (1 / 2)), ''consecutive_frames'' \<mapsto> PNone]
     = (settings\<lparr>EAR_THRESHOLD := Finite (1 / 2)\<rparr>, Inl (Uncaught TypeError))"
  by (simp add: update_config_def)

end
